theory Spec2Isabelle
  imports Main
begin

section \<open>The conversational assistant of AI-REA (Assistant.jsx)\<close>

text \<open>
  The component keeps a message log, a thread identifier, the input text and a loading
  flag; it resolves the router's pathname to a page name, sends one request per turn and
  applies the actions of the response. Strings are \<open>string\<close>; every setter of the
  component is a field update of the state record; what the component asks of its host
  (navigation, window events, the network request) is returned as a value.
\<close>

subsection \<open>Routes\<close>

text \<open>The two object literals, as association lists in the order they are written.\<close>

definition ROUTE_TO_PAGE :: "(string \<times> string) list" where
  "ROUTE_TO_PAGE =
    [(''/'', ''home''),
     (''/dashboard'', ''dashboard''),
     (''/results'', ''results''),
     (''/marketplace'', ''marketplace''),
     (''/marketplace/sell'', ''marketplace_sell''),
     (''/marketplace/buy'', ''marketplace_buy''),
     (''/about'', ''about'')]"

definition PAGE_TO_ROUTE :: "(string \<times> string) list" where
  "PAGE_TO_ROUTE =
    [(''home'', ''/''),
     (''dashboard'', ''/dashboard''),
     (''results'', ''/results''),
     (''marketplace'', ''/marketplace''),
     (''marketplace_sell'', ''/marketplace/sell''),
     (''marketplace_buy'', ''/marketplace/buy''),
     (''about'', ''/about'')]"

text \<open>
  \<^verbatim>\<open>const page = ROUTE_TO_PAGE[loc.pathname] || "home"\<close>.
  The key is the pathname of the router's location, which begins with a slash; no member
  that an object literal inherits has such a name, so the lookup is one among the keys
  written in the literal. Every page name of the table is a non-empty string, hence
  truthy, and \<open>||\<close> falls to \<open>home\<close> only where the key is missing.
\<close>

definition resolve :: "string \<Rightarrow> string" where
  "resolve pathname =
    (case map_of ROUTE_TO_PAGE pathname of
       Some page \<Rightarrow> (if page = [] then ''home'' else page)
     | None \<Rightarrow> ''home'')"

text \<open>\<^verbatim>\<open>PAGE_TO_ROUTE[page]\<close> for a page name of the enumeration.\<close>

definition route :: "string \<Rightarrow> string option" where
  "route page = map_of PAGE_TO_ROUTE page"

subsection \<open>Values received from the agent\<close>

text \<open>
  The body of a response is parsed JSON. A number is carried as the text that JavaScript's
  number-to-string conversion prints for it; an object is the association list of its own
  properties (\<open>map_of\<close> reads it, one binding per key). A JavaScript value that may be
  \<^verbatim>\<open>undefined\<close> is a \<open>json option\<close>, \<open>None\<close> being \<^verbatim>\<open>undefined\<close>.
\<close>

datatype json =
    JNull
  | JBool bool
  | JNum string
  | JStr string
  | JArr "json list"
  | JObj "(string \<times> json) list"

type_synonym js = "json option"

datatype exn = TypeError

text \<open>
  Reading a property \<^verbatim>\<open>a.name\<close>, for the names the handler reads (\<open>ui_action\<close>,
  \<open>page\<close>, \<open>query\<close>, \<open>fields\<close>: none of them is a member of a built-in prototype).
  On \<^verbatim>\<open>null\<close> the read throws; on an object it is the own property or
  \<^verbatim>\<open>undefined\<close>; on a boolean, number, string or array it is \<^verbatim>\<open>undefined\<close>.
\<close>

fun read_property :: "json \<Rightarrow> string \<Rightarrow> exn + js" where
  "read_property JNull name = Inl TypeError"
| "read_property (JObj fs) name = Inr (map_of fs name)"
| "read_property _ name = Inr None"

text \<open>The same read on a value already known not to be \<^verbatim>\<open>null\<close>.\<close>

fun member_of :: "json \<Rightarrow> string \<Rightarrow> js" where
  "member_of (JObj fs) name = map_of fs name"
| "member_of _ name = None"

text \<open>
  The conversion of a value to a string, which a computed property key
  \<^verbatim>\<open>PAGE_TO_ROUTE[a.page]\<close> applies to its key. An array joins the conversions of its
  elements with commas, \<^verbatim>\<open>null\<close> elements giving the empty string. A parsed object
  without an own property \<open>toString\<close> inherits the one that prints
  \<^verbatim>\<open>[object Object]\<close>; with one it has a property that is not callable, the inherited
  \<open>valueOf\<close> returns the object itself, and the conversion throws.
\<close>

fun toString :: "json \<Rightarrow> exn + string"
  and join :: "json list \<Rightarrow> exn + string"
where
  "toString JNull = Inr ''null''"
| "toString (JBool b) = Inr (if b then ''true'' else ''false'')"
| "toString (JNum printed) = Inr printed"
| "toString (JStr s) = Inr s"
| "toString (JArr xs) = join xs"
| "toString (JObj fs) =
     (if map_of fs ''toString'' = None then Inr ''[object Object]'' else Inl TypeError)"
| "join [] = Inr []"
| "join (x # xs) =
     (case (if x = JNull then Inr [] else toString x) of
        Inl e \<Rightarrow> Inl e
      | Inr s \<Rightarrow>
          (if xs = [] then Inr s
           else (case join xs of Inl e \<Rightarrow> Inl e | Inr rest \<Rightarrow> Inr (s @ '','' @ rest))))"

definition toPropertyKey :: "js \<Rightarrow> exn + string" where
  "toPropertyKey v = (case v of None \<Rightarrow> Inr ''undefined'' | Some x \<Rightarrow> toString x)"

text \<open>
  \<open>PAGE_TO_ROUTE\<close> is indexed by a key that the agent chooses, so the members every object
  literal inherits can be reached as well as the seven written ones. All of them are
  functions or objects: truthy, and never identical to a string.
\<close>

definition Object_prototype :: "string list" where
  "Object_prototype =
    [''constructor'', ''__proto__'', ''hasOwnProperty'', ''isPrototypeOf'',
     ''propertyIsEnumerable'', ''toLocaleString'', ''toString'', ''valueOf'',
     ''__defineGetter__'', ''__defineSetter__'', ''__lookupGetter__'', ''__lookupSetter__'']"

datatype route_value = Path string | Builtin string

definition PAGE_TO_ROUTE_at :: "string \<Rightarrow> route_value option" where
  "PAGE_TO_ROUTE_at key =
    (case map_of PAGE_TO_ROUTE key of
       Some r \<Rightarrow> Some (Path r)
     | None \<Rightarrow> (if key \<in> set Object_prototype then Some (Builtin key) else None))"

subsection \<open>The action dispatcher\<close>

text \<open>
  What the dispatcher asks of the host: \<^verbatim>\<open>navigate(route)\<close>, and the two window events
  \<^verbatim>\<open>assistant-fill-query\<close> (detail \<^verbatim>\<open>{ query: a.query }\<close>, recorded by the value of
  \<open>a.query\<close>) and \<^verbatim>\<open>assistant-fill-sell-form\<close> (detail \<^verbatim>\<open>a.fields\<close>).
\<close>

datatype effect = Navigate route_value | FillQuery js | FillSellForm js

text \<open>
  The body of the first \<^verbatim>\<open>if\<close>:
  \<^verbatim>\<open>const route = PAGE_TO_ROUTE[a.page]; if (route && route !== loc.pathname) navigate(route)\<close>.
\<close>

definition guide :: "string \<Rightarrow> json \<Rightarrow> exn + effect list" where
  "guide pathname a =
    (case toPropertyKey (member_of a ''page'') of
       Inl e \<Rightarrow> Inl e
     | Inr key \<Rightarrow>
        (case PAGE_TO_ROUTE_at key of
           None \<Rightarrow> Inr []
         | Some (Path r) \<Rightarrow> (if r \<noteq> [] \<and> r \<noteq> pathname then Inr [Navigate (Path r)] else Inr [])
         | Some (Builtin b) \<Rightarrow> Inr [Navigate (Builtin b)]))"

text \<open>
  The callback of \<^verbatim>\<open>forEach\<close>: three \<^verbatim>\<open>if\<close>s in a row on \<open>a.ui_action\<close>, compared
  with \<open>===\<close>. The first read of \<open>a.ui_action\<close> throws when the entry is \<^verbatim>\<open>null\<close>.
\<close>

definition apply_action :: "string \<Rightarrow> json \<Rightarrow> exn + effect list" where
  "apply_action pathname a =
    (case read_property a ''ui_action'' of
       Inl e \<Rightarrow> Inl e
     | Inr tag \<Rightarrow>
        (case (if tag = Some (JStr ''guide'') then guide pathname a else Inr []) of
           Inl e \<Rightarrow> Inl e
         | Inr nav \<Rightarrow>
             Inr (nav
               @ (if tag = Some (JStr ''fill_query'')
                  then [FillQuery (member_of a ''query'')] else [])
               @ (if tag = Some (JStr ''fill_sell_form'')
                  then [FillSellForm (member_of a ''fields'')] else []))))"

text \<open>
  \<^verbatim>\<open>actions.forEach(...)\<close>: the entries in array order. The result is the effects
  performed and the exception that ended the loop, if one did; the effects of the entries
  before a throw have happened.
\<close>

fun executeUIActions :: "string \<Rightarrow> json list \<Rightarrow> effect list \<times> exn option" where
  "executeUIActions pathname [] = ([], None)"
| "executeUIActions pathname (a # rest) =
     (case apply_action pathname a of
        Inl e \<Rightarrow> ([], Some e)
      | Inr es \<Rightarrow>
          (case executeUIActions pathname rest of (es', r) \<Rightarrow> (es @ es', r)))"

subsection \<open>The conversation state\<close>

datatype role = User | Assistant

text \<open>
  A message \<^verbatim>\<open>{ role, text, badge }\<close>. The text of a reply is whatever the response
  carries as \<open>reply\<close>; the badge is \<^verbatim>\<open>null\<close> or the entry taken from \<open>tools_called\<close>.
\<close>

record message =
  role :: role
  msg_text :: js
  badge :: json

text \<open>
  The state of the component: the router's pathname and the language of the localisation
  library (the two values the page-change effect depends on, the first through
  \<open>resolve\<close>), and the \<^verbatim>\<open>useState\<close> cells \<open>msgs\<close>, \<open>input\<close>, \<open>loading\<close> and
  \<open>threadId\<close>. The cell \<open>open\<close> only shows and hides the panel and is left out. Each
  handler below runs on the state of the latest render.
\<close>

record state =
  pathname :: string
  language :: string
  msgs :: "message list"
  input :: string
  loading :: bool
  threadId :: js

text \<open>
  \<^verbatim>\<open>getGreeting = (page) => t(`assistant.greetings.${page}`)\<close>. The translation function
  \<open>t\<close> of the localisation library is a parameter of every handler that calls it.
\<close>

definition getGreeting :: "(string \<Rightarrow> string) \<Rightarrow> string \<Rightarrow> string" where
  "getGreeting t page = t (''assistant.greetings.'' @ page)"

definition greeting_message :: "(string \<Rightarrow> string) \<Rightarrow> string \<Rightarrow> message" where
  "greeting_message t page =
    \<lparr>role = Assistant, msg_text = Some (JStr (getGreeting t page)), badge = JNull\<rparr>"

text \<open>
  The body of the effect with dependencies \<^verbatim>\<open>[page, i18n.language]\<close>; \<open>u\<close> is the
  string that the call \<^verbatim>\<open>uuid()\<close> returns.
\<close>

definition page_effect :: "(string \<Rightarrow> string) \<Rightarrow> string \<Rightarrow> state \<Rightarrow> state" where
  "page_effect t u s =
    s\<lparr>msgs := [greeting_message t (resolve (pathname s))], threadId := Some (JStr u)\<rparr>"


text \<open>The first render: the initial cells, then the effect, which runs once on mount.\<close>

definition mount ::
  "(string \<Rightarrow> string) \<Rightarrow> string \<Rightarrow> string \<Rightarrow> string \<Rightarrow> string \<Rightarrow> state" where
  "mount t u0 u1 at_pathname in_language =
    page_effect t u1
      \<lparr>pathname = at_pathname, language = in_language, msgs = [], input = [],
       loading = False, threadId = Some (JStr u0)\<rparr>"

text \<open>The button \<^verbatim>\<open>reset\<close>.\<close>

definition reset :: "(string \<Rightarrow> string) \<Rightarrow> string \<Rightarrow> state \<Rightarrow> state" where
  "reset t u s =
    s\<lparr>threadId := Some (JStr u), msgs := [greeting_message t (resolve (pathname s))]\<rparr>"

text \<open>\<^verbatim>\<open>onChange={e => setInput(e.target.value)}\<close>.\<close>

definition setInput :: "string \<Rightarrow> state \<Rightarrow> state" where
  "setInput v s = s\<lparr>input := v\<rparr>"

subsection \<open>Sending a turn\<close>

text \<open>
  \<^verbatim>\<open>input.trim()\<close> removes white space and line terminators at both ends; among the
  characters below 256 these are tab, line feed, vertical tab, form feed, carriage return,
  space and the no-break space.
\<close>

definition whitespace :: "char \<Rightarrow> bool" where
  "whitespace c =
    (c \<in> set [CHR 0x09, CHR 0x0A, CHR 0x0B, CHR 0x0C, CHR 0x0D, CHR 0x20, CHR 0xA0])"

definition trim :: "string \<Rightarrow> string" where
  "trim s = rev (dropWhile whitespace (rev (dropWhile whitespace s)))"

text \<open>
  The body of the request, \<^verbatim>\<open>JSON.stringify({ message, thread_id, current_page,
  page_context: { language } })\<close>; a property whose value is \<^verbatim>\<open>undefined\<close> is not written.
\<close>

definition request_body :: "state \<Rightarrow> string \<Rightarrow> json" where
  "request_body s text_sent =
    JObj ([(''message'', JStr text_sent)]
      @ (case threadId s of None \<Rightarrow> [] | Some v \<Rightarrow> [(''thread_id'', v)])
      @ [(''current_page'', JStr (resolve (pathname s))),
         (''page_context'', JObj [(''language'', JStr (language s))])])"

text \<open>
  A request in flight: the body posted to \<^verbatim>\<open>/api/assistant/chat\<close>, and the pathname
  that the \<open>executeUIActions\<close> of the sending render closed over.
\<close>

record pending =
  request :: json
  sent_from :: string

text \<open>
  \<^verbatim>\<open>send\<close> up to its \<^verbatim>\<open>await\<close>: the guard, the three setters, and the call of
  \<^verbatim>\<open>fetch\<close>. \<open>None\<close> is a submit that calls no transport.
\<close>

definition send :: "state \<Rightarrow> state \<times> pending option" where
  "send s =
    (let text_sent = trim (input s)
     in if text_sent = [] \<or> loading s then (s, None)
        else (s\<lparr>msgs := msgs s @ [\<lparr>role = User, msg_text = Some (JStr text_sent), badge = JNull\<rparr>],
                input := [],
                loading := True\<rparr>,
              Some \<lparr>request = request_body s text_sent, sent_from = pathname s\<rparr>))"

subsection \<open>The response\<close>

text \<open>
  A body that parses is taken to be an object, at the shape the handler reads: \<open>reply\<close>
  and \<open>thread_id\<close> are any value or missing; \<open>tools_called\<close> and \<open>ui_actions\<close> are
  arrays of any values, or \<open>None\<close> when missing or \<^verbatim>\<open>null\<close> (\<open>?.\<close> stops on both).
\<close>

record data =
  reply :: js
  thread_id :: js
  tools_called :: "json list option"
  ui_actions :: "json list option"

text \<open>
  How the request ends: \<^verbatim>\<open>fetch\<close> rejects, or it resolves to a response with a status
  and a body that \<^verbatim>\<open>res.json()\<close> parses (\<open>Some\<close>) or rejects (\<open>None\<close>).
\<close>

datatype fetch_result = Rejected | Resolved nat "data option"

text \<open>\<^verbatim>\<open>res.ok\<close>: a status from 200 to 299.\<close>

definition ok :: "nat \<Rightarrow> bool" where
  "ok status = (200 \<le> status \<and> status \<le> 299)"

text \<open>
  \<^verbatim>\<open>data.tools_called?.length ? data.tools_called[data.tools_called.length - 1] : null\<close>.
\<close>

definition badge_of :: "json list option \<Rightarrow> json" where
  "badge_of called =
    (case called of
       None \<Rightarrow> JNull
     | Some xs \<Rightarrow> (if length xs \<noteq> 0 then xs ! (length xs - 1) else JNull))"

text \<open>The \<^verbatim>\<open>catch\<close> block followed by \<^verbatim>\<open>finally\<close>.\<close>

definition on_error :: "(string \<Rightarrow> string) \<Rightarrow> state \<Rightarrow> state" where
  "on_error t s =
    s\<lparr>msgs := msgs s @ [\<lparr>role = Assistant, msg_text = Some (JStr (t ''assistant.error'')),
                          badge = JNull\<rparr>],
      loading := False\<rparr>"

text \<open>
  \<^verbatim>\<open>if (data.ui_actions?.length) executeUIActions(data.ui_actions)\<close>, with the pathname of
  the render that sent the request.
\<close>

definition run_actions :: "pending \<Rightarrow> data \<Rightarrow> effect list \<times> exn option" where
  "run_actions p d =
    (case ui_actions d of
       None \<Rightarrow> ([], None)
     | Some actions \<Rightarrow>
         (if length actions \<noteq> 0 then executeUIActions (sent_from p) actions else ([], None)))"

text \<open>
  \<^verbatim>\<open>send\<close> from its \<^verbatim>\<open>await\<close> on, run on the state in which the response arrives:
  the \<^verbatim>\<open>try\<close> block after \<^verbatim>\<open>fetch\<close>, \<^verbatim>\<open>catch\<close> and \<^verbatim>\<open>finally\<close>. The thread
  identifier is set before the actions run, so it stays set when they throw.
\<close>

definition send_resume ::
  "(string \<Rightarrow> string) \<Rightarrow> pending \<Rightarrow> fetch_result \<Rightarrow> state \<Rightarrow> state \<times> effect list" where
  "send_resume t p r s =
    (case r of
       Rejected \<Rightarrow> (on_error t s, [])
     | Resolved status body \<Rightarrow>
         (if \<not> ok status then (on_error t s, [])
          else (case body of
                  None \<Rightarrow> (on_error t s, [])
                | Some d \<Rightarrow>
                    (let s1 = s\<lparr>threadId := thread_id d\<rparr>
                     in (case run_actions p d of
                           (performed, Some e) \<Rightarrow> (on_error t s1, performed)
                         | (performed, None) \<Rightarrow>
                             (s1\<lparr>msgs := msgs s1 @ [\<lparr>role = Assistant, msg_text = reply d,
                                                       badge = badge_of (tools_called d)\<rparr>],
                                 loading := False\<rparr>,
                              performed))))))"

subsection \<open>Predicates of the statements\<close>

text \<open>
  The closed enumeration of page names, as the specification lists it. The source has no
  such type: these are the keys of \<open>PAGE_TO_ROUTE\<close>, in the order of the literal.
\<close>

definition PageContext :: "string list" where
  "PageContext =
    [''home'', ''dashboard'', ''results'', ''marketplace'', ''marketplace_sell'',
     ''marketplace_buy'', ''about'']"

text \<open>
  A value has a string form when its conversion to a string does not throw: it is not an
  object with an own property \<open>toString\<close>, and if it is an array each of its entries has a
  string form.
\<close>

fun has_string_form :: "json \<Rightarrow> bool"
  and all_have_string_form :: "json list \<Rightarrow> bool"
where
  "has_string_form (JObj fs) = (map_of fs ''toString'' = None)"
| "has_string_form (JArr xs) = all_have_string_form xs"
| "has_string_form JNull = True"
| "has_string_form (JBool b) = True"
| "has_string_form (JNum printed) = True"
| "has_string_form (JStr s) = True"
| "all_have_string_form [] = True"
| "all_have_string_form (x # xs) = (has_string_form x \<and> all_have_string_form xs)"

text \<open>
  An entry of the action list is an action when it is not \<^verbatim>\<open>null\<close> and, if it is tagged
  \<open>guide\<close>, its page is missing or has a string form.
\<close>

definition is_action :: "json \<Rightarrow> bool" where
  "is_action a =
    (a \<noteq> JNull \<and>
     (member_of a ''ui_action'' = Some (JStr ''guide'') \<longrightarrow>
        (case member_of a ''page'' of None \<Rightarrow> True | Some v \<Rightarrow> has_string_form v)))"

text \<open>The tags the dispatcher acts on.\<close>

definition known_tag :: "js \<Rightarrow> bool" where
  "known_tag tag =
    (tag = Some (JStr ''guide'') \<or> tag = Some (JStr ''fill_query'') \<or>
     tag = Some (JStr ''fill_sell_form''))"

text \<open>
  The string a value with a string form is converted to, written on its own: the words of
  the conversion, without its failure.
\<close>

fun string_form :: "json \<Rightarrow> string"
  and joined_form :: "json list \<Rightarrow> string"
where
  "string_form JNull = ''null''"
| "string_form (JBool b) = (if b then ''true'' else ''false'')"
| "string_form (JNum printed) = printed"
| "string_form (JStr s) = s"
| "string_form (JArr xs) = joined_form xs"
| "string_form (JObj fs) = ''[object Object]''"
| "joined_form [] = []"
| "joined_form (x # xs) =
     (if x = JNull then [] else string_form x) @ (if xs = [] then [] else '','' @ joined_form xs)"

definition page_key :: "js \<Rightarrow> string" where
  "page_key v = (case v of None \<Rightarrow> ''undefined'' | Some x \<Rightarrow> string_form x)"

text \<open>
  What one action is to contribute, by its tag. An action tagged \<open>guide\<close> whose page is
  one of the seven page names asks for one navigation to the route of that page, unless
  the route is the current path; one whose page names a member that the table inherits
  reaches \<^verbatim>\<open>navigate\<close> with that member; any other page gives nothing. An action tagged
  \<open>fill_query\<close> or \<open>fill_sell_form\<close> raises its event. Any other tag, or none, gives
  nothing.
\<close>

definition entry_effects :: "string \<Rightarrow> json \<Rightarrow> effect list" where
  "entry_effects cur a =
    (if member_of a ''ui_action'' = Some (JStr ''guide'') then
       (case map_of PAGE_TO_ROUTE (page_key (member_of a ''page'')) of
          Some r \<Rightarrow> (if r = cur then [] else [Navigate (Path r)])
        | None \<Rightarrow>
            (if page_key (member_of a ''page'') \<in> set Object_prototype
             then [Navigate (Builtin (page_key (member_of a ''page'')))] else []))
     else if member_of a ''ui_action'' = Some (JStr ''fill_query'') then
       [FillQuery (member_of a ''query'')]
     else if member_of a ''ui_action'' = Some (JStr ''fill_sell_form'') then
       [FillSellForm (member_of a ''fields'')]
     else [])"

text \<open>The window events among the effects, and the ones an entry is to raise by its tag.\<close>

fun is_signal :: "effect \<Rightarrow> bool" where
  "is_signal (Navigate r) = False"
| "is_signal (FillQuery q) = True"
| "is_signal (FillSellForm f) = True"

definition signals_of :: "json \<Rightarrow> effect list" where
  "signals_of a =
    (if member_of a ''ui_action'' = Some (JStr ''fill_query'')
       then [FillQuery (member_of a ''query'')]
     else if member_of a ''ui_action'' = Some (JStr ''fill_sell_form'')
       then [FillSellForm (member_of a ''fields'')]
     else [])"

text \<open>
  The transport fails: no response, a status outside 200 to 299, or a body that does not
  parse.
\<close>

fun transport_failed :: "fetch_result \<Rightarrow> bool" where
  "transport_failed Rejected = True"
| "transport_failed (Resolved status body) = (\<not> ok status \<or> body = None)"

definition error_message :: "(string \<Rightarrow> string) \<Rightarrow> message" where
  "error_message t =
    \<lparr>role = Assistant, msg_text = Some (JStr (t ''assistant.error'')), badge = JNull\<rparr>"

subsection \<open>Concrete inputs\<close>

text \<open>
  A turn on the dashboard: the user types a query, the agent answers with one action and
  two tool names. \<open>t_key\<close> is the translation that has no entry and returns its key.
\<close>

definition t_key :: "string \<Rightarrow> string" where
  "t_key key = key"

definition fill_query_action :: json where
  "fill_query_action =
    JObj [(''ui_action'', JStr ''fill_query''), (''query'', JStr ''3 BHK apartment in Pune'')]"

definition guide_dashboard :: json where
  "guide_dashboard = JObj [(''ui_action'', JStr ''guide''), (''page'', JStr ''dashboard'')]"

definition dashboard_idle :: state where
  "dashboard_idle =
    \<lparr>pathname = ''/dashboard'', language = ''en'',
     msgs = [greeting_message t_key ''dashboard''], input = ''3 BHK apartment in Pune'',
     loading = False, threadId = Some (JStr ''T1'')\<rparr>"

definition dashboard_sending :: state where
  "dashboard_sending =
    \<lparr>pathname = ''/dashboard'', language = ''en'',
     msgs = [greeting_message t_key ''dashboard'',
             \<lparr>role = User, msg_text = Some (JStr ''3 BHK apartment in Pune''), badge = JNull\<rparr>],
     input = [], loading = True, threadId = Some (JStr ''T1'')\<rparr>"

definition dashboard_pending :: pending where
  "dashboard_pending =
    \<lparr>request =
       JObj [(''message'', JStr ''3 BHK apartment in Pune''), (''thread_id'', JStr ''T1''),
             (''current_page'', JStr ''dashboard''),
             (''page_context'', JObj [(''language'', JStr ''en'')])],
     sent_from = ''/dashboard''\<rparr>"

definition agent_response :: data where
  "agent_response =
    \<lparr>reply = Some (JStr ''Done''), thread_id = Some (JStr ''T1''),
     tools_called = Some [JStr ''guide_to_page'', JStr ''fill_query_input''],
     ui_actions = Some [fill_query_action]\<rparr>"

section \<open>Properties\<close>

subsection \<open>Auxiliary facts\<close>

lemma PageContext_keys: "PageContext = map fst PAGE_TO_ROUTE"
  by (simp add: PageContext_def PAGE_TO_ROUTE_def)

lemma request_body_thread_id: "member_of (request_body s text_sent) ''thread_id'' = threadId s"
  by (simp add: request_body_def split: option.split)

lemma read_property_member_of:
  "a \<noteq> JNull \<Longrightarrow> read_property a name = Inr (member_of a name)"
  by (cases a) simp_all

lemma member_of_Some_not_null: "member_of a name = Some v \<Longrightarrow> a \<noteq> JNull"
  by auto

lemma toString_string_form:
  "has_string_form v \<Longrightarrow> toString v = Inr (string_form v)"
  "all_have_string_form vs \<Longrightarrow> join vs = Inr (joined_form vs)"
  by (induction v and vs rule: toString_join.induct) auto

lemma toPropertyKey_page_key:
  assumes "case v of None \<Rightarrow> True | Some x \<Rightarrow> has_string_form x"
  shows "toPropertyKey v = Inr (page_key v)"
  using assms
  by (cases v) (simp_all add: toPropertyKey_def page_key_def toString_string_form(1))

lemma PAGE_TO_ROUTE_nonempty: "map_of PAGE_TO_ROUTE key = Some r \<Longrightarrow> r \<noteq> []"
  by (auto simp: PAGE_TO_ROUTE_def split: if_splits)

lemma apply_action_entry_effects:
  assumes "is_action a"
  shows "apply_action cur a = Inr (entry_effects cur a)"
proof -
  from assms have "a \<noteq> JNull"
    by (simp add: is_action_def)
  then have tag: "read_property a ''ui_action'' = Inr (member_of a ''ui_action'')"
    by (rule read_property_member_of)
  show ?thesis
  proof (cases "member_of a ''ui_action'' = Some (JStr ''guide'')")
    case True
    with assms have "case member_of a ''page'' of None \<Rightarrow> True | Some v \<Rightarrow> has_string_form v"
      by (simp add: is_action_def)
    then have key: "toPropertyKey (member_of a ''page'') = Inr (page_key (member_of a ''page''))"
      by (rule toPropertyKey_page_key)
    have "guide cur a = Inr (entry_effects cur a)"
    proof (cases "map_of PAGE_TO_ROUTE (page_key (member_of a ''page''))")
      case None
      with True key show ?thesis
        by (simp add: guide_def entry_effects_def PAGE_TO_ROUTE_at_def)
    next
      case (Some r)
      then have "r \<noteq> []"
        by (rule PAGE_TO_ROUTE_nonempty)
      with Some True key show ?thesis
        by (simp add: guide_def entry_effects_def PAGE_TO_ROUTE_at_def)
    qed
    with True tag show ?thesis
      by (simp add: apply_action_def)
  next
    case False
    with tag show ?thesis
      by (simp add: apply_action_def entry_effects_def)
  qed
qed

lemma executeUIActions_entry_effects:
  "\<forall>a\<in>set actions. is_action a \<Longrightarrow>
   executeUIActions cur actions = (concat (map (entry_effects cur) actions), None)"
proof (induction actions)
  case Nil
  then show ?case by simp
next
  case (Cons a actions)
  from Cons.prems have "is_action a" and rest: "\<forall>x\<in>set actions. is_action x"
    by simp_all
  from \<open>is_action a\<close> have "apply_action cur a = Inr (entry_effects cur a)"
    by (rule apply_action_entry_effects)
  moreover from rest
  have "executeUIActions cur actions = (concat (map (entry_effects cur) actions), None)"
    by (rule Cons.IH)
  ultimately show ?case by simp
qed

lemma signals_apply_action:
  assumes "apply_action cur a = Inr es"
  shows "filter is_signal es = signals_of a"
proof (cases "a = JNull")
  case True
  with assms show ?thesis by (simp add: apply_action_def)
next
  case False
  then have "read_property a ''ui_action'' = Inr (member_of a ''ui_action'')"
    by (rule read_property_member_of)
  with assms show ?thesis
    by (auto simp: apply_action_def signals_of_def guide_def
        split: sum.splits if_splits option.splits route_value.splits)
qed

lemma trim_query: "trim ''3 BHK apartment in Pune'' = ''3 BHK apartment in Pune''"
  by (simp add: trim_def whitespace_def)

lemma send_dashboard_idle: "send dashboard_idle = (dashboard_sending, Some dashboard_pending)"
  by (simp add: send_def dashboard_idle_def dashboard_sending_def dashboard_pending_def
      request_body_def resolve_def ROUTE_TO_PAGE_def trim_query Let_def)

lemma run_actions_agent_response:
  "run_actions dashboard_pending agent_response =
     ([FillQuery (Some (JStr ''3 BHK apartment in Pune''))], None)"
  by (simp add: run_actions_def dashboard_pending_def agent_response_def apply_action_def
      fill_query_action_def)

lemma ok_200: "ok 200"
  by (simp add: ok_def)

lemma send_resume_completed:
  assumes "ok status" and "run_actions p d = (performed, None)"
  shows "send_resume t p (Resolved status (Some d)) s =
      (s\<lparr>threadId := thread_id d,
         msgs := msgs s @ [\<lparr>role = Assistant, msg_text = reply d,
                           badge = badge_of (tools_called d)\<rparr>],
         loading := False\<rparr>,
       performed)"
  using assms by (simp add: send_resume_def Let_def)

text \<open>
  An exception of the dispatcher reaches the same \<^verbatim>\<open>catch\<close> block, after the thread
  identifier has been set and the effects of the earlier entries have happened.
\<close>

lemma send_resume_actions_throw:
  assumes "ok status" and "run_actions p d = (performed, Some e)"
  shows "send_resume t p (Resolved status (Some d)) s =
      (on_error t (s\<lparr>threadId := thread_id d\<rparr>), performed)"
  using assms by (simp add: send_resume_def Let_def)

subsection \<open>The page-context resolver\<close>

text \<open>
  C3: for every page name \<open>p\<close> of the enumeration, the path that \<open>PAGE_TO_ROUTE\<close> gives for
  \<open>p\<close> resolves to \<open>p\<close> again.
\<close>

theorem resolve_route_round_trip:
  "\<forall>p\<in>set PageContext. map_option resolve (route p) = Some p"
  by (simp add: PageContext_def route_def PAGE_TO_ROUTE_def resolve_def ROUTE_TO_PAGE_def)

theorem resolve_route_round_trip_witness:
  "''marketplace_sell'' \<in> set PageContext
   \<and> route ''marketplace_sell'' = Some ''/marketplace/sell''
   \<and> resolve ''/marketplace/sell'' = ''marketplace_sell''"
proof -
  have listed: "''marketplace_sell'' \<in> set PageContext"
    by (simp add: PageContext_def)
  have path: "route ''marketplace_sell'' = Some ''/marketplace/sell''"
    by (simp add: route_def PAGE_TO_ROUTE_def)
  from resolve_route_round_trip listed
  have "map_option resolve (route ''marketplace_sell'') = Some ''marketplace_sell''"
    by (rule bspec)
  with listed path show ?thesis by simp
qed

text \<open>
  C9: \<open>resolve\<close> gives a page name of the enumeration for every path, and \<open>home\<close> for every
  path that is not a key of the route table, such as \<open>/nonexistent\<close>.
\<close>

theorem resolve_defaults_to_home:
  "resolve path \<in> set PageContext
   \<and> (path \<notin> set (map fst ROUTE_TO_PAGE) \<longrightarrow> resolve path = ''home'')"
proof
  show "resolve path \<in> set PageContext"
    by (auto simp: PageContext_def resolve_def ROUTE_TO_PAGE_def split: option.splits if_splits)
next
  show "path \<notin> set (map fst ROUTE_TO_PAGE) \<longrightarrow> resolve path = ''home''"
  proof
    assume "path \<notin> set (map fst ROUTE_TO_PAGE)"
    then have "map_of ROUTE_TO_PAGE path = None"
      by (simp add: map_of_eq_None_iff)
    then show "resolve path = ''home''"
      by (simp add: resolve_def)
  qed
qed

theorem resolve_defaults_to_home_witness:
  "''/nonexistent'' \<notin> set (map fst ROUTE_TO_PAGE) \<and> resolve ''/nonexistent'' = ''home''"
proof -
  have unlisted: "''/nonexistent'' \<notin> set (map fst ROUTE_TO_PAGE)"
    by (simp add: ROUTE_TO_PAGE_def)
  with resolve_defaults_to_home [of "''/nonexistent''"] show ?thesis
    by blast
qed

subsection \<open>The dispatcher\<close>

text \<open>
  C7: an entry tagged \<open>guide\<close> whose page has the route \<open>r\<close> asks for no navigation when
  \<open>r\<close> is the current path, and for exactly one navigation, to \<open>r\<close>, when it is not.
\<close>

theorem guide_navigation_guard:
  assumes "member_of a ''ui_action'' = Some (JStr ''guide'')"
    and "member_of a ''page'' = Some (JStr p)"
    and "route p = Some r"
  shows "executeUIActions cur [a] = (if r = cur then [] else [Navigate (Path r)], None)"
proof -
  from assms(1) have "a \<noteq> JNull"
    by (rule member_of_Some_not_null)
  then have rp: "read_property a ''ui_action'' = Inr (member_of a ''ui_action'')"
    by (rule read_property_member_of)
  from assms(3) have "r \<noteq> []"
    by (auto simp: route_def PAGE_TO_ROUTE_def split: if_splits)
  with assms rp show ?thesis
    by (simp add: apply_action_def guide_def toPropertyKey_def PAGE_TO_ROUTE_at_def route_def)
qed

theorem guide_navigation_guard_witness:
  "route ''dashboard'' = Some ''/dashboard''
   \<and> executeUIActions ''/dashboard'' [guide_dashboard] = ([], None)
   \<and> executeUIActions ''/results'' [guide_dashboard] = ([Navigate (Path ''/dashboard'')], None)"
proof -
  have tag: "member_of guide_dashboard ''ui_action'' = Some (JStr ''guide'')"
    and page: "member_of guide_dashboard ''page'' = Some (JStr ''dashboard'')"
    by (simp_all add: guide_dashboard_def)
  have path: "route ''dashboard'' = Some ''/dashboard''"
    by (simp add: route_def PAGE_TO_ROUTE_def)
  from guide_navigation_guard [OF tag page path, of "''/dashboard''"]
    guide_navigation_guard [OF tag page path, of "''/results''"] path
  show ?thesis by simp
qed

text \<open>
  C10: an entry tagged \<open>fill_query\<close> raises exactly one fill-query event whose detail
  holds the entry's \<open>query\<close>, and an entry tagged \<open>fill_sell_form\<close> exactly one
  fill-sell-form event whose detail is the entry's \<open>fields\<close>, whatever these values are,
  \<^verbatim>\<open>undefined\<close> when they are missing. In a sequence that the dispatcher runs to its end
  the events raised are those of its entries, in array order.
\<close>

theorem fill_signals_forwarded:
  "(member_of a ''ui_action'' = Some (JStr ''fill_query'') \<longrightarrow>
      apply_action cur a = Inr [FillQuery (member_of a ''query'')])
   \<and> (member_of a ''ui_action'' = Some (JStr ''fill_sell_form'') \<longrightarrow>
      apply_action cur a = Inr [FillSellForm (member_of a ''fields'')])
   \<and> (snd (executeUIActions cur actions) = None \<longrightarrow>
      filter is_signal (fst (executeUIActions cur actions)) = concat (map signals_of actions))"
proof (intro conjI impI)
  assume tag: "member_of a ''ui_action'' = Some (JStr ''fill_query'')"
  then have "a \<noteq> JNull"
    by (rule member_of_Some_not_null)
  then have "read_property a ''ui_action'' = Inr (member_of a ''ui_action'')"
    by (rule read_property_member_of)
  with tag show "apply_action cur a = Inr [FillQuery (member_of a ''query'')]"
    by (simp add: apply_action_def)
next
  assume tag: "member_of a ''ui_action'' = Some (JStr ''fill_sell_form'')"
  then have "a \<noteq> JNull"
    by (rule member_of_Some_not_null)
  then have "read_property a ''ui_action'' = Inr (member_of a ''ui_action'')"
    by (rule read_property_member_of)
  with tag show "apply_action cur a = Inr [FillSellForm (member_of a ''fields'')]"
    by (simp add: apply_action_def)
next
  assume "snd (executeUIActions cur actions) = None"
  then show "filter is_signal (fst (executeUIActions cur actions))
      = concat (map signals_of actions)"
  proof (induction actions)
    case Nil
    then show ?case by simp
  next
    case (Cons a actions)
    then show ?case
      by (auto split: sum.splits prod.splits simp: signals_apply_action)
  qed
qed

theorem fill_signals_forwarded_witness:
  "apply_action ''/dashboard'' (JObj [(''ui_action'', JStr ''fill_query'')])
     = Inr [FillQuery None]
   \<and> apply_action ''/dashboard''
       (JObj [(''ui_action'', JStr ''fill_sell_form''), (''fields'', JNum ''7'')])
     = Inr [FillSellForm (Some (JNum ''7''))]
   \<and> snd (executeUIActions ''/results''
        [guide_dashboard, JObj [(''ui_action'', JStr ''fill_query'')], fill_query_action]) = None
   \<and> filter is_signal (fst (executeUIActions ''/results''
        [guide_dashboard, JObj [(''ui_action'', JStr ''fill_query'')], fill_query_action]))
     = [FillQuery None, FillQuery (Some (JStr ''3 BHK apartment in Pune''))]"
proof -
  have completes: "snd (executeUIActions ''/results''
      [guide_dashboard, JObj [(''ui_action'', JStr ''fill_query'')], fill_query_action]) = None"
    by (simp add: apply_action_def guide_def toPropertyKey_def PAGE_TO_ROUTE_at_def
        PAGE_TO_ROUTE_def guide_dashboard_def fill_query_action_def)
  from fill_signals_forwarded
    [of "JObj [(''ui_action'', JStr ''fill_query'')]" "''/dashboard''" "[]"]
  have absent: "apply_action ''/dashboard'' (JObj [(''ui_action'', JStr ''fill_query'')])
      = Inr [FillQuery None]"
    by simp
  from fill_signals_forwarded
    [of "JObj [(''ui_action'', JStr ''fill_sell_form''), (''fields'', JNum ''7'')]"
      "''/dashboard''" "[]"]
  have malformed: "apply_action ''/dashboard''
      (JObj [(''ui_action'', JStr ''fill_sell_form''), (''fields'', JNum ''7'')])
      = Inr [FillSellForm (Some (JNum ''7''))]"
    by simp
  from fill_signals_forwarded
    [of JNull "''/results''"
      "[guide_dashboard, JObj [(''ui_action'', JStr ''fill_query'')], fill_query_action]"]
    completes
  have "filter is_signal (fst (executeUIActions ''/results''
        [guide_dashboard, JObj [(''ui_action'', JStr ''fill_query'')], fill_query_action]))
     = concat (map signals_of
        [guide_dashboard, JObj [(''ui_action'', JStr ''fill_query'')], fill_query_action])"
    by blast
  then have "filter is_signal (fst (executeUIActions ''/results''
        [guide_dashboard, JObj [(''ui_action'', JStr ''fill_query'')], fill_query_action]))
     = [FillQuery None, FillQuery (Some (JStr ''3 BHK apartment in Pune''))]"
    by (simp add: signals_of_def guide_dashboard_def fill_query_action_def)
  with completes absent malformed show ?thesis by simp
qed

text \<open>
  C6, as the code has it: on a sequence of actions (no entry is \<^verbatim>\<open>null\<close>, and the page
  of every entry tagged \<open>guide\<close> is missing or has a string form) the dispatcher throws
  nothing, and its effects are exactly those of the entries, one entry after the other in
  array order. An entry whose tag is none of \<open>guide\<close>, \<open>fill_query\<close>, \<open>fill_sell_form\<close>,
  and an entry tagged \<open>guide\<close> whose page names neither a route nor a member that the
  table inherits, are ignored: the effects are those of the sequence without the entry, so
  the entry blocks nothing that comes later.
\<close>

theorem dispatch_completes_on_actions:
  assumes "\<forall>a\<in>set actions. is_action a"
  shows "executeUIActions cur actions = (concat (map (entry_effects cur) actions), None)
    \<and> (\<forall>xs a ys. actions = xs @ a # ys \<and> \<not> known_tag (member_of a ''ui_action'') \<longrightarrow>
          executeUIActions cur actions = executeUIActions cur (xs @ ys))
    \<and> (\<forall>xs a ys. actions = xs @ a # ys
          \<and> member_of a ''ui_action'' = Some (JStr ''guide'')
          \<and> map_of PAGE_TO_ROUTE (page_key (member_of a ''page'')) = None
          \<and> page_key (member_of a ''page'') \<notin> set Object_prototype \<longrightarrow>
          executeUIActions cur actions = executeUIActions cur (xs @ ys))"
proof (intro conjI allI impI)
  show "executeUIActions cur actions = (concat (map (entry_effects cur) actions), None)"
    using assms by (rule executeUIActions_entry_effects)
next
  fix xs a ys
  assume ignored: "actions = xs @ a # ys \<and> \<not> known_tag (member_of a ''ui_action'')"
  then have parts: "actions = xs @ a # ys"
    by simp
  from ignored have no_effect: "entry_effects cur a = []"
    by (simp add: entry_effects_def known_tag_def)
  from parts no_effect
  have same: "concat (map (entry_effects cur) actions) = concat (map (entry_effects cur) (xs @ ys))"
    by simp
  from assms parts have "\<forall>x\<in>set (xs @ ys). is_action x"
    by simp
  then have "executeUIActions cur (xs @ ys) = (concat (map (entry_effects cur) (xs @ ys)), None)"
    by (rule executeUIActions_entry_effects)
  moreover from assms
  have "executeUIActions cur actions = (concat (map (entry_effects cur) actions), None)"
    by (rule executeUIActions_entry_effects)
  ultimately show "executeUIActions cur actions = executeUIActions cur (xs @ ys)"
    using same by (simp only:)
next
  fix xs a ys
  assume unrouted: "actions = xs @ a # ys
          \<and> member_of a ''ui_action'' = Some (JStr ''guide'')
          \<and> map_of PAGE_TO_ROUTE (page_key (member_of a ''page'')) = None
          \<and> page_key (member_of a ''page'') \<notin> set Object_prototype"
  then have parts: "actions = xs @ a # ys"
    by simp
  from unrouted have no_effect: "entry_effects cur a = []"
    by (simp add: entry_effects_def)
  from parts no_effect
  have same: "concat (map (entry_effects cur) actions) = concat (map (entry_effects cur) (xs @ ys))"
    by simp
  from assms parts have "\<forall>x\<in>set (xs @ ys). is_action x"
    by simp
  then have "executeUIActions cur (xs @ ys) = (concat (map (entry_effects cur) (xs @ ys)), None)"
    by (rule executeUIActions_entry_effects)
  moreover from assms
  have "executeUIActions cur actions = (concat (map (entry_effects cur) actions), None)"
    by (rule executeUIActions_entry_effects)
  ultimately show "executeUIActions cur actions = executeUIActions cur (xs @ ys)"
    using same by (simp only:)
qed

theorem dispatch_completes_on_actions_witness:
  "list_all is_action
     [JStr ''noise'', guide_dashboard, JObj [(''ui_action'', JStr ''dance'')],
      JObj [(''ui_action'', JStr ''guide''), (''page'', JStr ''nowhere'')], fill_query_action,
      JObj [(''ui_action'', JStr ''guide''), (''page'', JArr [JStr ''about''])]]
   \<and> executeUIActions ''/results''
       [JStr ''noise'', guide_dashboard, JObj [(''ui_action'', JStr ''dance'')],
        JObj [(''ui_action'', JStr ''guide''), (''page'', JStr ''nowhere'')], fill_query_action,
        JObj [(''ui_action'', JStr ''guide''), (''page'', JArr [JStr ''about''])]]
     = ([Navigate (Path ''/dashboard''), FillQuery (Some (JStr ''3 BHK apartment in Pune'')),
         Navigate (Path ''/about'')], None)
   \<and> executeUIActions ''/results''
       [guide_dashboard, JObj [(''ui_action'', JStr ''dance'')], fill_query_action]
     = executeUIActions ''/results'' [guide_dashboard, fill_query_action]
   \<and> executeUIActions ''/results''
       [JObj [(''ui_action'', JStr ''guide''), (''page'', JStr ''nowhere'')], fill_query_action]
     = executeUIActions ''/results'' [fill_query_action]"
proof -
  let ?dance = "JObj [(''ui_action'', JStr ''dance'')]"
  let ?nowhere = "JObj [(''ui_action'', JStr ''guide''), (''page'', JStr ''nowhere'')]"
  let ?actions = "[JStr ''noise'', guide_dashboard, ?dance, ?nowhere, fill_query_action,
      JObj [(''ui_action'', JStr ''guide''), (''page'', JArr [JStr ''about''])]]"
  have actions: "\<forall>a\<in>set ?actions. is_action a"
    by (simp add: is_action_def fill_query_action_def guide_dashboard_def)
  have effects: "concat (map (entry_effects ''/results'') ?actions)
      = [Navigate (Path ''/dashboard''), FillQuery (Some (JStr ''3 BHK apartment in Pune'')),
         Navigate (Path ''/about'')]"
    by (simp add: entry_effects_def page_key_def PAGE_TO_ROUTE_def Object_prototype_def
        fill_query_action_def guide_dashboard_def)
  from dispatch_completes_on_actions [OF actions, of "''/results''", THEN conjunct1] effects
  have whole: "executeUIActions ''/results'' ?actions
      = ([Navigate (Path ''/dashboard''), FillQuery (Some (JStr ''3 BHK apartment in Pune'')),
          Navigate (Path ''/about'')], None)"
    by (simp only:)
  have short: "\<forall>a\<in>set [guide_dashboard, ?dance, fill_query_action]. is_action a"
    by (simp add: is_action_def fill_query_action_def guide_dashboard_def)
  have "[guide_dashboard, ?dance, fill_query_action] = [guide_dashboard] @ ?dance # [fill_query_action]
      \<and> \<not> known_tag (member_of ?dance ''ui_action'')"
    by (simp add: known_tag_def)
  then have unknown: "executeUIActions ''/results'' [guide_dashboard, ?dance, fill_query_action]
      = executeUIActions ''/results'' ([guide_dashboard] @ [fill_query_action])"
    by (rule dispatch_completes_on_actions
          [OF short, of "''/results''", THEN conjunct2, THEN conjunct1, rule_format])
  have lost: "\<forall>a\<in>set [?nowhere, fill_query_action]. is_action a"
    by (simp add: is_action_def fill_query_action_def)
  have "[?nowhere, fill_query_action] = [] @ ?nowhere # [fill_query_action]
      \<and> member_of ?nowhere ''ui_action'' = Some (JStr ''guide'')
      \<and> map_of PAGE_TO_ROUTE (page_key (member_of ?nowhere ''page'')) = None
      \<and> page_key (member_of ?nowhere ''page'') \<notin> set Object_prototype"
    by (simp add: page_key_def PAGE_TO_ROUTE_def Object_prototype_def)
  then have unrouted: "executeUIActions ''/results'' [?nowhere, fill_query_action]
      = executeUIActions ''/results'' ([] @ [fill_query_action])"
    by (rule dispatch_completes_on_actions
          [OF lost, of "''/results''", THEN conjunct2, THEN conjunct2, rule_format])
  from actions have "list_all is_action ?actions"
    by (simp only: list_all_iff)
  with whole unknown unrouted show ?thesis
    by simp
qed

text \<open>
  C6 as stated fails on two sequences: one that begins with \<^verbatim>\<open>null\<close>, and one that
  begins with an entry tagged \<open>guide\<close> whose page is an object with an own property
  \<open>toString\<close>. The dispatcher throws on the first entry of each, and the fill-query entry
  that follows is not applied.
\<close>

theorem dispatch_throws_on_malformed_entry:
  "executeUIActions ''/dashboard'' [JNull, fill_query_action] = ([], Some TypeError)
   \<and> executeUIActions ''/dashboard''
        [JObj [(''ui_action'', JStr ''guide''), (''page'', JObj [(''toString'', JNull)])],
         fill_query_action] = ([], Some TypeError)
   \<and> executeUIActions ''/dashboard'' [fill_query_action]
        = ([FillQuery (Some (JStr ''3 BHK apartment in Pune''))], None)"
  by (simp add: apply_action_def guide_def toPropertyKey_def fill_query_action_def)

subsection \<open>The controller\<close>

text \<open>
  C2: while a request is unresolved (\<open>loading\<close> is set) a submit changes nothing and calls
  no transport; a submit that calls the transport sets \<open>loading\<close>, so of two submits in a
  row exactly one calls it.
\<close>

theorem send_while_loading_is_noop:
  "(loading s \<longrightarrow> send s = (s, None))
   \<and> (snd (send s) \<noteq> None \<longrightarrow>
        loading (fst (send s))
        \<and> send (fst (send s)) = (fst (send s), None)
        \<and> length (filter (\<lambda>call. call \<noteq> None) [snd (send s), snd (send (fst (send s)))]) = 1)"
  by (auto simp: send_def Let_def)

theorem send_while_loading_is_noop_witness:
  "loading dashboard_sending
   \<and> send dashboard_sending = (dashboard_sending, None)
   \<and> snd (send dashboard_idle) \<noteq> None
   \<and> send (fst (send dashboard_idle)) = (fst (send dashboard_idle), None)
   \<and> length (filter (\<lambda>call. call \<noteq> None)
        [snd (send dashboard_idle), snd (send (fst (send dashboard_idle)))]) = 1"
proof -
  have sending: "loading dashboard_sending"
    by (simp add: dashboard_sending_def)
  have accepted: "snd (send dashboard_idle) \<noteq> None"
    by (simp add: send_dashboard_idle)
  from send_while_loading_is_noop [of dashboard_sending] sending
  have "send dashboard_sending = (dashboard_sending, None)"
    by blast
  moreover from send_while_loading_is_noop [of dashboard_idle] accepted
  have "send (fst (send dashboard_idle)) = (fst (send dashboard_idle), None)
    \<and> length (filter (\<lambda>call. call \<noteq> None)
        [snd (send dashboard_idle), snd (send (fst (send dashboard_idle)))]) = 1"
    by blast
  ultimately show ?thesis
    using sending accepted by blast
qed

text \<open>
  C4: when the transport fails (no response, a status that is not a success, or a body
  that does not parse) the handler appends exactly one error message, localised by \<open>t\<close>,
  leaves the thread identifier as it is, raises no effect and clears \<open>loading\<close>; the
  user's message, appended by the submit, is still in the log before the error message.
\<close>

theorem transport_failure_recovery:
  assumes "transport_failed r"
  shows "send_resume t p r s = (s\<lparr>msgs := msgs s @ [error_message t], loading := False\<rparr>, [])
    \<and> threadId (fst (send_resume t p r s)) = threadId s
    \<and> loading (fst (send_resume t p r s)) = False
    \<and> (send s0 = (s, Some p) \<longrightarrow>
         msgs (fst (send_resume t p r s))
           = msgs s0
             @ [\<lparr>role = User, msg_text = Some (JStr (trim (input s0))), badge = JNull\<rparr>,
                error_message t])"
proof -
  from assms
  have failed: "send_resume t p r s = (s\<lparr>msgs := msgs s @ [error_message t], loading := False\<rparr>, [])"
    by (cases r) (auto simp: send_resume_def on_error_def error_message_def split: option.splits)
  have "send s0 = (s, Some p) \<longrightarrow>
      msgs s = msgs s0
        @ [\<lparr>role = User, msg_text = Some (JStr (trim (input s0))), badge = JNull\<rparr>]"
    by (auto simp: send_def Let_def split: if_splits)
  with failed show ?thesis by simp
qed

theorem transport_failure_recovery_witness:
  "transport_failed (Resolved 500 None)
   \<and> send dashboard_idle = (dashboard_sending, Some dashboard_pending)
   \<and> send_resume t_key dashboard_pending (Resolved 500 None) dashboard_sending
      = (\<lparr>pathname = ''/dashboard'', language = ''en'',
          msgs = [greeting_message t_key ''dashboard'',
                  \<lparr>role = User, msg_text = Some (JStr ''3 BHK apartment in Pune''),
                   badge = JNull\<rparr>,
                  \<lparr>role = Assistant, msg_text = Some (JStr ''assistant.error''),
                   badge = JNull\<rparr>],
          input = [], loading = False, threadId = Some (JStr ''T1'')\<rparr>,
         [])"
proof -
  have failed: "transport_failed (Resolved 500 None)"
    by (simp add: ok_def)
  from transport_failure_recovery [OF failed, of t_key dashboard_pending dashboard_sending]
  have "send_resume t_key dashboard_pending (Resolved 500 None) dashboard_sending
      = (dashboard_sending\<lparr>msgs := msgs dashboard_sending @ [error_message t_key],
                            loading := False\<rparr>, [])"
    by (rule conjunct1)
  then have "send_resume t_key dashboard_pending (Resolved 500 None) dashboard_sending
      = (\<lparr>pathname = ''/dashboard'', language = ''en'',
          msgs = [greeting_message t_key ''dashboard'',
                  \<lparr>role = User, msg_text = Some (JStr ''3 BHK apartment in Pune''),
                   badge = JNull\<rparr>,
                  \<lparr>role = Assistant, msg_text = Some (JStr ''assistant.error''),
                   badge = JNull\<rparr>],
          input = [], loading = False, threadId = Some (JStr ''T1'')\<rparr>,
         [])"
    by (simp add: dashboard_sending_def error_message_def t_key_def)
  with failed send_dashboard_idle show ?thesis by simp
qed

text \<open>
  C5: on a successful turn (a success status, a parsed body, and actions that run to
  their end) the handler sets the thread identifier to the response's \<open>thread_id\<close>,
  which is then the \<open>thread_id\<close> of the next request; it performs the effects of the
  dispatcher on the response's action list, and appends one assistant message with the
  reply, whose badge is the last entry of \<open>tools_called\<close> when there is one and
  \<^verbatim>\<open>null\<close> otherwise; \<open>loading\<close> is cleared.
\<close>

theorem successful_turn:
  assumes "ok status" and "run_actions p d = (performed, None)"
  shows "send_resume t p (Resolved status (Some d)) s =
      (s\<lparr>threadId := thread_id d,
         msgs := msgs s @ [\<lparr>role = Assistant, msg_text = reply d,
                           badge = (case tools_called d of
                                      None \<Rightarrow> JNull
                                    | Some names \<Rightarrow> if names = [] then JNull else last names)\<rparr>],
         loading := False\<rparr>,
       performed)
    \<and> performed = fst (executeUIActions (sent_from p)
                         (case ui_actions d of None \<Rightarrow> [] | Some actions \<Rightarrow> actions))
    \<and> member_of (request_body (fst (send_resume t p (Resolved status (Some d)) s)) next_text)
          ''thread_id'' = thread_id d"
proof -
  have badge: "badge_of (tools_called d) =
      (case tools_called d of
         None \<Rightarrow> JNull
       | Some names \<Rightarrow> if names = [] then JNull else last names)"
    by (simp add: badge_of_def last_conv_nth split: option.splits)
  have dispatched: "performed = fst (executeUIActions (sent_from p)
      (case ui_actions d of None \<Rightarrow> [] | Some actions \<Rightarrow> actions))"
    using assms(2) by (auto simp: run_actions_def split: option.splits if_splits)
  from send_resume_completed [OF assms, of t s] badge dispatched show ?thesis
    by (simp add: request_body_thread_id)
qed

theorem successful_turn_witness:
  "ok 200
   \<and> run_actions dashboard_pending agent_response
      = ([FillQuery (Some (JStr ''3 BHK apartment in Pune''))], None)
   \<and> send_resume t_key dashboard_pending (Resolved 200 (Some agent_response)) dashboard_sending
      = (\<lparr>pathname = ''/dashboard'', language = ''en'',
          msgs = [greeting_message t_key ''dashboard'',
                  \<lparr>role = User, msg_text = Some (JStr ''3 BHK apartment in Pune''),
                   badge = JNull\<rparr>,
                  \<lparr>role = Assistant, msg_text = Some (JStr ''Done''),
                   badge = JStr ''fill_query_input''\<rparr>],
          input = [], loading = False, threadId = Some (JStr ''T1'')\<rparr>,
         [FillQuery (Some (JStr ''3 BHK apartment in Pune''))])"
proof -
  note success = ok_200
  from successful_turn [OF success run_actions_agent_response, of t_key dashboard_sending]
  have "send_resume t_key dashboard_pending (Resolved 200 (Some agent_response)) dashboard_sending
      = (dashboard_sending\<lparr>threadId := thread_id agent_response,
           msgs := msgs dashboard_sending
             @ [\<lparr>role = Assistant, msg_text = reply agent_response,
                 badge = (case tools_called agent_response of
                            None \<Rightarrow> JNull
                          | Some names \<Rightarrow> if names = [] then JNull else last names)\<rparr>],
           loading := False\<rparr>,
         [FillQuery (Some (JStr ''3 BHK apartment in Pune''))])"
    by (rule conjunct1)
  then have "send_resume t_key dashboard_pending (Resolved 200 (Some agent_response)) dashboard_sending
      = (\<lparr>pathname = ''/dashboard'', language = ''en'',
          msgs = [greeting_message t_key ''dashboard'',
                  \<lparr>role = User, msg_text = Some (JStr ''3 BHK apartment in Pune''),
                   badge = JNull\<rparr>,
                  \<lparr>role = Assistant, msg_text = Some (JStr ''Done''),
                   badge = JStr ''fill_query_input''\<rparr>],
          input = [], loading = False, threadId = Some (JStr ''T1'')\<rparr>,
         [FillQuery (Some (JStr ''3 BHK apartment in Pune''))])"
    by (simp add: dashboard_sending_def agent_response_def)
  with success run_actions_agent_response show ?thesis by simp
qed




text \<open>
  C1, as the code has it: the handler of a response does not compare thread identifiers.
  When a reset has replaced the identifier while the request was in flight, a late
  response with a success status, a parsed body and actions that run to their end is
  applied like any other: its \<open>thread_id\<close> replaces the identifier of the reset, its
  actions are dispatched, and one assistant message is appended after the greeting.
\<close>

theorem late_response_applied_after_reset:
  assumes "send s = (s1, Some p)" and "ok status" and "run_actions p d = (performed, None)"
  shows "send_resume t p (Resolved status (Some d)) (reset t u s1) =
      ((reset t u s1)\<lparr>threadId := thread_id d,
          msgs := [greeting_message t (resolve (pathname s)),
                   \<lparr>role = Assistant, msg_text = reply d, badge = badge_of (tools_called d)\<rparr>],
          loading := False\<rparr>,
       performed)"
proof -
  from assms(1) have "pathname s1 = pathname s"
    by (auto simp: send_def Let_def split: if_splits)
  with send_resume_completed [OF assms(2,3), of t "reset t u s1"] show ?thesis
    by (simp add: reset_def)
qed

theorem late_response_applied_after_reset_witness:
  "send dashboard_idle = (dashboard_sending, Some dashboard_pending)
   \<and> ok 200
   \<and> run_actions dashboard_pending agent_response
      = ([FillQuery (Some (JStr ''3 BHK apartment in Pune''))], None)
   \<and> send_resume t_key dashboard_pending (Resolved 200 (Some agent_response))
        (reset t_key ''T2'' dashboard_sending)
      = ((reset t_key ''T2'' dashboard_sending)\<lparr>threadId := Some (JStr ''T1''),
            msgs := [greeting_message t_key ''dashboard'',
                     \<lparr>role = Assistant, msg_text = Some (JStr ''Done''),
                      badge = JStr ''fill_query_input''\<rparr>],
            loading := False\<rparr>,
         [FillQuery (Some (JStr ''3 BHK apartment in Pune''))])"
proof -
  note success = ok_200
  from late_response_applied_after_reset
    [OF send_dashboard_idle success run_actions_agent_response, of t_key "''T2''"]
  have "send_resume t_key dashboard_pending (Resolved 200 (Some agent_response))
        (reset t_key ''T2'' dashboard_sending)
      = ((reset t_key ''T2'' dashboard_sending)\<lparr>threadId := thread_id agent_response,
            msgs := [greeting_message t_key (resolve (pathname dashboard_idle)),
                     \<lparr>role = Assistant, msg_text = reply agent_response,
                      badge = badge_of (tools_called agent_response)\<rparr>],
            loading := False\<rparr>,
         [FillQuery (Some (JStr ''3 BHK apartment in Pune''))])" .
  then have "send_resume t_key dashboard_pending (Resolved 200 (Some agent_response))
        (reset t_key ''T2'' dashboard_sending)
      = ((reset t_key ''T2'' dashboard_sending)\<lparr>threadId := Some (JStr ''T1''),
            msgs := [greeting_message t_key ''dashboard'',
                     \<lparr>role = Assistant, msg_text = Some (JStr ''Done''),
                      badge = JStr ''fill_query_input''\<rparr>],
            loading := False\<rparr>,
         [FillQuery (Some (JStr ''3 BHK apartment in Pune''))])"
    by (simp add: agent_response_def dashboard_idle_def badge_of_def resolve_def
        ROUTE_TO_PAGE_def)
  with send_dashboard_idle success run_actions_agent_response show ?thesis by simp
qed

text \<open>
  C1 as stated fails: the thread \<open>T1\<close> is active on the dashboard, a turn is sent, a reset
  installs \<open>T2\<close> and leaves the greeting alone in the log, and then the response to the
  turn arrives, carrying \<open>T1\<close>. A message is appended to the log, the fill-query event is
  raised, and \<open>T1\<close> is the thread identifier again.
\<close>

theorem stale_response_not_discarded:
  "send dashboard_idle = (dashboard_sending, Some dashboard_pending)
   \<and> threadId dashboard_sending = Some (JStr ''T1'')
   \<and> threadId (reset t_key ''T2'' dashboard_sending) = Some (JStr ''T2'')
   \<and> msgs (reset t_key ''T2'' dashboard_sending) = [greeting_message t_key ''dashboard'']
   \<and> send_resume t_key dashboard_pending (Resolved 200 (Some agent_response))
        (reset t_key ''T2'' dashboard_sending)
      = (\<lparr>pathname = ''/dashboard'', language = ''en'',
          msgs = [greeting_message t_key ''dashboard'',
                  \<lparr>role = Assistant, msg_text = Some (JStr ''Done''),
                   badge = JStr ''fill_query_input''\<rparr>],
          input = [], loading = False, threadId = Some (JStr ''T1'')\<rparr>,
         [FillQuery (Some (JStr ''3 BHK apartment in Pune''))])
   \<and> msgs (fst (send_resume t_key dashboard_pending (Resolved 200 (Some agent_response))
        (reset t_key ''T2'' dashboard_sending)))
      \<noteq> msgs (reset t_key ''T2'' dashboard_sending)
   \<and> snd (send_resume t_key dashboard_pending (Resolved 200 (Some agent_response))
        (reset t_key ''T2'' dashboard_sending)) \<noteq> []"
proof -
  have arrived: "send_resume t_key dashboard_pending (Resolved 200 (Some agent_response))
        (reset t_key ''T2'' dashboard_sending)
      = (\<lparr>pathname = ''/dashboard'', language = ''en'',
          msgs = [greeting_message t_key ''dashboard'',
                  \<lparr>role = Assistant, msg_text = Some (JStr ''Done''),
                   badge = JStr ''fill_query_input''\<rparr>],
          input = [], loading = False, threadId = Some (JStr ''T1'')\<rparr>,
         [FillQuery (Some (JStr ''3 BHK apartment in Pune''))])"
    using send_resume_completed [OF ok_200 run_actions_agent_response,
        of t_key "reset t_key ''T2'' dashboard_sending"]
    by (simp add: reset_def dashboard_sending_def agent_response_def badge_of_def resolve_def
        ROUTE_TO_PAGE_def)
  have cleared: "msgs (reset t_key ''T2'' dashboard_sending) = [greeting_message t_key ''dashboard'']"
    and replaced: "threadId (reset t_key ''T2'' dashboard_sending) = Some (JStr ''T2'')"
    by (simp_all add: reset_def dashboard_sending_def resolve_def ROUTE_TO_PAGE_def)
  have active: "threadId dashboard_sending = Some (JStr ''T1'')"
    by (simp add: dashboard_sending_def)
  from arrived cleared replaced active send_dashboard_idle show ?thesis
    by simp
qed

end
